theory Spec2Isabelle
  imports Main "HOL-Library.Word"
begin

unbundle bit_operations_syntax

section \<open>Go values the program handles\<close>

subsection \<open>Errors\<close>

text \<open>
  A Go \<^verbatim>\<open>error\<close> is an interface value: \<^verbatim>\<open>nil\<close>, or a value of some dynamic type
  with an \<^verbatim>\<open>Error()\<close> message. The program makes its own errors with
  \<^verbatim>\<open>fmt.Errorf\<close> and the verb \<^verbatim>\<open>%v\<close> (never \<^verbatim>\<open>%w\<close>), and the tests with
  \<^verbatim>\<open>errors.New\<close>: both give a value that carries a message and nothing else
  (\<open>errorString\<close>). Errors that come from outside (the file system, the object
  store) may be of any other type, named here by the type's name (\<open>foreignError\<close>).
  An \<^verbatim>\<open>error\<close> that may be \<^verbatim>\<open>nil\<close> is an \<open>error option\<close>.
\<close>

datatype error = errorString string | foreignError string string

fun Error :: "error \<Rightarrow> string" where
  "Error (errorString s) = s"
| "Error (foreignError t s) = s"

subsection \<open>Directory entries\<close>

text \<open>
  \<^verbatim>\<open>fs.DirEntry\<close> is an interface; the callback calls its \<^verbatim>\<open>IsDir()\<close> only.
  An entry is the record of what its getters return; a \<^verbatim>\<open>nil\<close> entry is \<open>None\<close>.
\<close>

record DirEntry =
  Name :: string
  IsDir :: bool

text \<open>
  The test file's \<^verbatim>\<open>mockFileInfo\<close>: \<^verbatim>\<open>IsDir()\<close> is \<^verbatim>\<open>mode.IsDir()\<close>, that is
  \<^verbatim>\<open>mode&ModeDir != 0\<close> on the 32-bit \<^verbatim>\<open>fs.FileMode\<close>, with
  \<^verbatim>\<open>ModeDir = 1 << 31\<close>.
\<close>

record mockFileInfo =
  name :: string
  size :: int
  mode :: "32 word"
  modTime :: int

definition ModeDir :: "32 word" where
  "ModeDir = push_bit 31 1"

definition FileMode_IsDir :: "32 word \<Rightarrow> bool" where
  "FileMode_IsDir m = (m AND ModeDir \<noteq> 0)"

definition mockFileInfo_DirEntry :: "mockFileInfo \<Rightarrow> DirEntry" where
  "mockFileInfo_DirEntry i = \<lparr>Name = name i, IsDir = FileMode_IsDir (mode i)\<rparr>"

subsection \<open>Upload descriptors and the uploader interface\<close>

text \<open>
  \<^verbatim>\<open>uploadObject\<close>: the body is an \<^verbatim>\<open>io.Reader\<close>. The callback never reads it, it
  only hands the opened file on, so the type of files is a parameter \<open>'f\<close>.
  An \<^verbatim>\<open>uploader\<close> is one method, \<^verbatim>\<open>Upload(*uploadObject) error\<close>, which may change
  the uploader's own state \<open>'u\<close>: a function from the object and the state to the
  returned error and the new state. An uploader that panics is outside the model.
\<close>

record 'f uploadObject =
  Path :: string
  Body :: 'f
  ContentType :: string

type_synonym ('f, 'u) uploader = "'f uploadObject \<Rightarrow> 'u \<Rightarrow> error option \<times> 'u"

text \<open>
  \<^verbatim>\<open>fs.FS\<close> is one method, \<^verbatim>\<open>Open(name) (fs.File, error)\<close>. Go returns both values,
  and either may be \<^verbatim>\<open>nil\<close>.
\<close>

type_synonym 'f FS = "string \<Rightarrow> 'f option \<times> error option"

subsection \<open>Extension and content type\<close>

text \<open>
  Modelled from the spec: \<^verbatim>\<open>filepath.Ext\<close> belongs to Go's standard library, not to
  the repository. The spec: the extension is "the substring from the last \<^verbatim>\<open>.\<close> to the
  end of the last path segment, if any". The scan runs from the end of the path and
  stops at a separator; \<open>Ext_scan\<close> takes the reversed path and the characters
  already passed.
\<close>

fun Ext_scan :: "string \<Rightarrow> string \<Rightarrow> string" where
  "Ext_scan [] acc = []"
| "Ext_scan (c # cs) acc =
     (if c = CHR ''/'' then []
      else if c = CHR ''.'' then c # acc
      else Ext_scan cs (c # acc))"

definition Ext :: "string \<Rightarrow> string" where
  "Ext path = Ext_scan (rev path) []"

text \<open>
  Modelled from the spec: \<^verbatim>\<open>mime.TypeByExtension\<close> belongs to Go's standard library
  and reads the host's tables. The spec: "map it to a MIME content type using a standard
  extension-to-MIME-type table; unknown extensions yield an empty content type (not an
  error)". The table is a parameter; the function returns a string and has no error
  result.
\<close>

type_synonym mime_table = "string \<rightharpoonup> string"

definition TypeByExtension :: "mime_table \<Rightarrow> string \<Rightarrow> string" where
  "TypeByExtension tbl ext = (case tbl ext of None \<Rightarrow> [] | Some t \<Rightarrow> t)"

text \<open>
  Modelled from the spec: the two entries of the standard table that the spec and the
  repository's tests name.
\<close>

definition mime_types :: mime_table where
  "mime_types =
     [''.txt'' \<mapsto> ''text/plain; charset=utf-8'', ''.js'' \<mapsto> ''application/javascript'']"

section \<open>The walk callback\<close>

text \<open>
  What a call of the callback does to the outside, in order: the lines it logs, the
  files it opens, the objects it hands to the uploader, the files it closes.
\<close>

datatype 'f event =
    Log string
  | Open string
  | Upload "'f uploadObject"
  | Close 'f

text \<open>
  A call returns an error (possibly \<^verbatim>\<open>nil\<close>) or panics (a method call on a
  \<^verbatim>\<open>nil\<close> interface value).
\<close>

datatype outcome = Returned "error option" | Panicked

definition newline :: string where
  "newline = [CHR 0x0A]"

text \<open>
  \<^verbatim>\<open>createUploadFunc(fsys, client)\<close> returns the closure
  \<^verbatim>\<open>func(path, entry, err) error\<close>; the model takes the closure's arguments after
  the captured ones, then the uploader's state, and returns the outcome, the uploader's
  new state and the events in order. \<^verbatim>\<open>defer file.Close()\<close> runs when the closure
  returns, so \<open>Close\<close> is the last event of both paths that pass it; on a \<^verbatim>\<open>nil\<close>
  file with a \<^verbatim>\<open>nil\<close> error the \<^verbatim>\<open>defer\<close> statement itself panics.
\<close>

definition createUploadFunc ::
  "mime_table \<Rightarrow> 'f FS \<Rightarrow> ('f, 'u) uploader \<Rightarrow>
     string \<Rightarrow> DirEntry option \<Rightarrow> error option \<Rightarrow> 'u \<Rightarrow> outcome \<times> 'u \<times> 'f event list"
where
  "createUploadFunc tbl fsys client path entry err u =
     (case err of
        Some e \<Rightarrow>
          (Returned (Some (errorString (''could not walk '' @ path @ '': '' @ Error e))), u, [])
      | None \<Rightarrow>
          (case entry of
             None \<Rightarrow> (Panicked, u, [])
           | Some d \<Rightarrow>
               if IsDir d then
                 (Returned None, u, [Log (''Found directory: '' @ path @ newline)])
               else
                 let extension = Ext path;
                     contentType = TypeByExtension tbl extension
                 in (case fsys path of
                       (_, Some e) \<Rightarrow>
                         (Returned (Some (errorString
                            (''could not open '' @ path @ '' for reading: '' @ Error e))),
                          u, [Open path])
                     | (None, None) \<Rightarrow> (Panicked, u, [Open path])
                     | (Some file, None) \<Rightarrow>
                         let object = \<lparr>Path = path, Body = file, ContentType = contentType\<rparr>
                         in (case client object u of
                               (Some e, u') \<Rightarrow>
                                 (Returned (Some (errorString
                                    (''failed to upload '' @ path @ '': '' @ Error e))),
                                  u', [Open path, Upload object, Close file])
                             | (None, u') \<Rightarrow>
                                 (Returned None, u',
                                  [Open path, Upload object,
                                   Log (''Uploaded '' @ path @ newline), Close file])))))"

text \<open>The uploader was invoked in a call if and only if its events hold an \<open>Upload\<close>.\<close>

fun is_Upload :: "'f event \<Rightarrow> bool" where
  "is_Upload (Upload object) = True"
| "is_Upload _ = False"

fun is_Open :: "'f event \<Rightarrow> bool" where
  "is_Open (Open p) = True"
| "is_Open _ = False"

fun is_Close :: "'f event \<Rightarrow> bool" where
  "is_Close (Close file) = True"
| "is_Close _ = False"

section \<open>The S3 uploader\<close>

text \<open>
  \<^verbatim>\<open>s3manager.UploadInput\<close>, the fields the program sets. \<^verbatim>\<open>aws.String(x)\<close> is a
  pointer to \<open>x\<close>: \<open>Some x\<close>. The metadata is a \<^verbatim>\<open>map[string]*string\<close>.
\<close>

record 'f UploadInput =
  Bucket :: "string option"
  Key :: "string option"
  ACL :: "string option"
  InputBody :: 'f
  InputContentType :: "string option"
  Metadata :: "string \<rightharpoonup> string option"

text \<open>
  The base client's \<^verbatim>\<open>Upload\<close> is the store operation: it takes the input and the
  store's state \<open>'s\<close>, and returns the error and the new state (its
  \<^verbatim>\<open>*UploadOutput\<close> is discarded by the caller).
\<close>

type_synonym ('f, 's) s3manager_Uploader = "'f UploadInput \<Rightarrow> 's \<Rightarrow> error option \<times> 's"

record ('f, 's) s3Uploader =
  base :: "('f, 's) s3manager_Uploader"
  bucket :: string
  fileACL :: string
  Tags :: "string \<rightharpoonup> string option"

definition newS3Uploader ::
  "('f, 's) s3manager_Uploader \<Rightarrow> string \<Rightarrow> string \<Rightarrow> ('f, 's) s3Uploader"
where
  "newS3Uploader client b acl = \<lparr>base = client, bucket = b, fileACL = acl, Tags = Map.empty\<rparr>"

definition s3Uploader_Upload :: "('f, 's) s3Uploader \<Rightarrow> ('f, 's) uploader" where
  "s3Uploader_Upload s object st =
     (case base s \<lparr>Bucket = Some (bucket s),
                    Key = Some (Path object),
                    ACL = Some (fileACL s),
                    InputBody = Body object,
                    InputContentType = Some (ContentType object),
                    Metadata = Tags s\<rparr> st of
        (Some e, st') \<Rightarrow> (Some (errorString (''failed to upload to S3: '' @ Error e)), st')
      | (None, st') \<Rightarrow> (None, st'))"

section \<open>The walk and the program\<close>

text \<open>
  Modelled from the spec: \<^verbatim>\<open>filepath.WalkDir\<close> belongs to Go's standard library. The
  spec: each entry is "visited exactly once", the callback receives the path, the
  metadata and "any error encountered while attempting to access it", and the "walk
  aborts immediately (short-circuits) on the first callback error". The calls the
  traversal makes while the callback keeps returning \<^verbatim>\<open>nil\<close> are a parameter, a list
  of (path, entry, prior error). The callback of this program never returns
  \<^verbatim>\<open>fs.SkipDir\<close>, so no call is skipped.
\<close>

type_synonym visit = "string \<times> DirEntry option \<times> error option"

fun WalkDir ::
  "visit list \<Rightarrow> (string \<Rightarrow> DirEntry option \<Rightarrow> error option \<Rightarrow> 'u \<Rightarrow> outcome \<times> 'u \<times> 'f event list)
     \<Rightarrow> 'u \<Rightarrow> outcome \<times> 'u \<times> 'f event list"
where
  "WalkDir [] fn u = (Returned None, u, [])"
| "WalkDir ((path, d, e) # vs) fn u =
     (case fn path d e u of
        (Returned None, u', evs) \<Rightarrow>
          (case WalkDir vs fn u' of (r, u'', evs') \<Rightarrow> (r, u'', evs @ evs'))
      | (r, u', evs) \<Rightarrow> (r, u', evs))"

text \<open>
  The environment is a map from names to values; \<^verbatim>\<open>os.Getenv\<close> returns the empty
  string for a name that is not set.
\<close>

definition Getenv :: "(string \<rightharpoonup> string) \<Rightarrow> string \<Rightarrow> string" where
  "Getenv env k = (case env k of None \<Rightarrow> [] | Some v \<Rightarrow> v)"

text \<open>The four command-line flags, as \<^verbatim>\<open>flag.Parse\<close> leaves them.\<close>

record flags =
  appVersion :: string
  bucketFlag :: string
  endpoint :: string
  region :: string

record aws_Config =
  Credentials :: "string \<times> string \<times> string"
  Region :: "string option"
  Endpoint :: "string option"

text \<open>
  The process ends with an exit status (\<^verbatim>\<open>log.Fatal\<close> logs its message and exits
  with status 1; returning from \<^verbatim>\<open>main\<close> is status 0) or with a panic.
\<close>

datatype exit = Exit nat | Panic

text \<open>Lines 46 to 49 of \<^verbatim>\<open>main\<close>: the uploader the program builds.\<close>

definition main_s3Uploader ::
  "flags \<Rightarrow> ('f, 's) s3manager_Uploader \<Rightarrow> ('f, 's) s3Uploader"
where
  "main_s3Uploader fl baseS3Uploader =
     (let s3Uploader = newS3Uploader baseS3Uploader (bucketFlag fl) ''public-read''
      in if appVersion fl \<noteq> []
         then s3Uploader\<lparr>Tags := (Tags s3Uploader)(''x-amz-meta-app-version'' \<mapsto> Some (appVersion fl))\<rparr>
         else s3Uploader)"

text \<open>
  \<^verbatim>\<open>main\<close>. The AWS session and the base uploader come from the SDK and are
  parameters: \<open>NewSession\<close> may fail, and \<^verbatim>\<open>session.Must\<close> panics then. \<open>dirFS\<close> is
  \<^verbatim>\<open>os.DirFS("./")\<close> and \<open>visits\<close> the traversal of the working directory.
\<close>

definition main ::
  "(string \<rightharpoonup> string) \<Rightarrow> flags \<Rightarrow> (aws_Config \<Rightarrow> error + 'sess) \<Rightarrow>
     ('sess \<Rightarrow> ('f, 's) s3manager_Uploader) \<Rightarrow> mime_table \<Rightarrow> 'f FS \<Rightarrow> visit list \<Rightarrow> 's
     \<Rightarrow> exit \<times> 's \<times> 'f event list"
where
  "main env fl NewSession NewUploader tbl dirFS visits st =
     (let key = Getenv env ''AWS_ACCESS_KEY_ID'';
          secret = Getenv env ''AWS_SECRET_ACCESS_KEY''
      in if key = [] \<or> secret = [] then
           (Exit 1, st,
            [Log (''Both 'AWS_ACCESS_KEY_ID' and 'AWS_SECRET_ACCESS_KEY' must be provided '' @
                  ''as environment variables.'')])
         else
           let sessionConfig = \<lparr>Credentials = (key, secret, []), Region = Some (region fl),
                                  Endpoint = None\<rparr>;
               sessionConfig' = (if endpoint fl \<noteq> []
                                 then sessionConfig\<lparr>Endpoint := Some (endpoint fl)\<rparr>
                                 else sessionConfig)
           in (case NewSession sessionConfig' of
                 Inl e \<Rightarrow> (Panic, st, [])
               | Inr sess \<Rightarrow>
                   let baseS3Uploader = NewUploader sess;
                       s3Uploader = main_s3Uploader fl baseS3Uploader
                   in (case WalkDir visits
                              (createUploadFunc tbl dirFS (s3Uploader_Upload s3Uploader)) st of
                         (Returned (Some e), st', evs) \<Rightarrow>
                           (Exit 1, st', evs @ [Log (''Upload failed:'' @ Error e)])
                       | (Returned None, st', evs) \<Rightarrow> (Exit 0, st', evs)
                       | (Panicked, st', evs) \<Rightarrow> (Panic, st', evs))))"

section \<open>The test doubles\<close>

text \<open>
  \<^verbatim>\<open>mockFile\<close>: the body is a \<^verbatim>\<open>strings.NewReader\<close>, kept as the bytes it has yet
  to deliver (\<open>None\<close> for the \<^verbatim>\<open>nil\<close> reader of the test case that fails to open);
  \<^verbatim>\<open>ioutil.ReadAll\<close> on it returns those bytes.
\<close>

record mockFile =
  body :: "string option"
  err :: "error option"

definition ReadAll :: "mockFile \<Rightarrow> string option" where
  "ReadAll f = body f"

text \<open>\<^verbatim>\<open>mockFS.Open\<close>: a map lookup; a file that is found comes with its own error.\<close>

definition mockFS_Open :: "(string \<rightharpoonup> mockFile) \<Rightarrow> mockFile FS" where
  "mockFS_Open files path =
     (case files path of
        None \<Rightarrow> (None, Some (errorString ''file not found''))
      | Some file \<Rightarrow> (Some file, err file))"

record 'f mockUploader =
  uploadErr :: "error option"
  uploadedObject :: "'f uploadObject option"

definition mockUploader_Upload :: "('f, 'f mockUploader) uploader" where
  "mockUploader_Upload object u =
     (if uploadErr u \<noteq> None then (uploadErr u, u)
      else (None, u\<lparr>uploadedObject := Some object\<rparr>))"

text \<open>
  A test case of \<^verbatim>\<open>Test_createUploadFunc\<close>: the callback is made from the case's
  mock file system and mock uploader and called once with the case's path, entry and
  walk error. The content types the cases expect are those of \<open>mime_types\<close>.
\<close>

definition run_case ::
  "(string \<rightharpoonup> mockFile) \<Rightarrow> mockFile mockUploader \<Rightarrow> string \<Rightarrow> mockFileInfo option \<Rightarrow>
     error option \<Rightarrow> outcome \<times> mockFile mockUploader \<times> mockFile event list"
where
  "run_case files client path entry walkErr =
     createUploadFunc mime_types (mockFS_Open files) mockUploader_Upload path
       (map_option mockFileInfo_DirEntry entry) walkErr client"

definition no_client :: "mockFile mockUploader" where
  "no_client = \<lparr>uploadErr = None, uploadedObject = None\<rparr>"

definition case_walk_error :: "outcome \<times> mockFile mockUploader \<times> mockFile event list" where
  "case_walk_error =
     run_case Map.empty no_client ''foo.txt'' None (Some (errorString ''some error''))"

definition case_skip_directory :: "outcome \<times> mockFile mockUploader \<times> mockFile event list" where
  "case_skip_directory =
     run_case Map.empty no_client ''foo/bar''
       (Some \<lparr>name = ''foo/bar'', size = 12, mode = ModeDir, modTime = 0\<rparr>) None"

definition case_error_opening_file ::
  "outcome \<times> mockFile mockUploader \<times> mockFile event list"
where
  "case_error_opening_file =
     run_case [''foo.txt'' \<mapsto> \<lparr>body = None, err = Some (errorString ''can't be opened'')\<rparr>]
       no_client ''foo.txt''
       (Some \<lparr>name = ''foo.txt'', size = 12, mode = 0, modTime = 0\<rparr>) None"

definition case_upload_error :: "outcome \<times> mockFile mockUploader \<times> mockFile event list" where
  "case_upload_error =
     run_case [''foo.txt'' \<mapsto> \<lparr>body = Some ''some body'', err = None\<rparr>]
       \<lparr>uploadErr = Some (errorString ''failed to upload''), uploadedObject = None\<rparr> ''foo.txt''
       (Some \<lparr>name = ''foo.txt'', size = 12, mode = 0, modTime = 0\<rparr>) None"

definition case_successful_upload ::
  "outcome \<times> mockFile mockUploader \<times> mockFile event list"
where
  "case_successful_upload =
     run_case [''foo.txt'' \<mapsto> \<lparr>body = Some ''some body'', err = None\<rparr>]
       no_client ''foo.txt''
       (Some \<lparr>name = ''foo.txt'', size = 12, mode = 0, modTime = 0\<rparr>) None"

definition case_successful_javascript_upload ::
  "outcome \<times> mockFile mockUploader \<times> mockFile event list"
where
  "case_successful_javascript_upload =
     run_case [''app/index.js'' \<mapsto> \<lparr>body = Some ''let foo = 'bar';'', err = None\<rparr>]
       no_client ''app/index.js''
       (Some \<lparr>name = ''app/index.js'', size = 12, mode = 0, modTime = 0\<rparr>) None"

text \<open>
  One more case, outside the test table: a file without an extension, in a directory whose
  name holds a dot.
\<close>

definition case_no_extension :: "outcome \<times> mockFile mockUploader \<times> mockFile event list" where
  "case_no_extension =
     run_case [''v1.2/LICENSE'' \<mapsto> \<lparr>body = Some ''some body'', err = None\<rparr>]
       no_client ''v1.2/LICENSE''
       (Some \<lparr>name = ''v1.2/LICENSE'', size = 12, mode = 0, modTime = 0\<rparr>) None"

text \<open>
  A store that records every input it receives and fails on the keys of a given set:
  a base client for running the S3 uploader.
\<close>

definition recording_store ::
  "string list \<Rightarrow> ('f, 'f UploadInput list) s3manager_Uploader"
where
  "recording_store failing input st =
     (if Key input \<in> Some ` set failing
      then (Some (foreignError ''awserr.Error'' ''RequestError: send request failed''),
            st @ [input])
      else (None, st @ [input]))"

text \<open>
  A run of the program on the tree of the spec's end-to-end scenario (\<^verbatim>\<open>foo.txt\<close> and
  \<^verbatim>\<open>app/index.js\<close>), with a session that always succeeds and the recording store.
\<close>

definition example_flags :: flags where
  "example_flags =
     \<lparr>appVersion = ''1.2.3'', bucketFlag = ''my-space'',
      endpoint = ''nyc3.digitaloceanspaces.com'', region = ''us-east-1''\<rparr>"

definition example_files :: "string \<rightharpoonup> mockFile" where
  "example_files =
     [''foo.txt'' \<mapsto> \<lparr>body = Some ''some body'', err = None\<rparr>,
      ''app/index.js'' \<mapsto> \<lparr>body = Some ''let foo = 'bar';'', err = None\<rparr>]"

definition example_visits :: "visit list" where
  "example_visits =
     [(''./'', Some \<lparr>Name = ''.'', IsDir = True\<rparr>, None),
      (''app'', Some \<lparr>Name = ''app'', IsDir = True\<rparr>, None),
      (''app/index.js'', Some \<lparr>Name = ''index.js'', IsDir = False\<rparr>, None),
      (''foo.txt'', Some \<lparr>Name = ''foo.txt'', IsDir = False\<rparr>, None)]"

definition example_run ::
  "(string \<rightharpoonup> string) \<Rightarrow> exit \<times> mockFile UploadInput list \<times> mockFile event list"
where
  "example_run env =
     main env example_flags (\<lambda>cfg. Inr cfg) (\<lambda>sess. recording_store []) mime_types
       (mockFS_Open example_files) example_visits []"

section \<open>Properties of the callback\<close>

text \<open>
  C3. When the walk passes a prior access error, the callback returns a non-nil error
  whose message holds the entry's path and the prior error's message, the uploader is
  not invoked (no \<open>Upload\<close> event, its state unchanged) and no file is opened.
\<close>

theorem walk_error_is_returned:
  fixes r :: "outcome \<times> 'u \<times> 'f event list"
  assumes "walkErr = Some e"
    and "r = createUploadFunc tbl fsys client path entry walkErr u"
  shows "(\<exists>e'. fst r = Returned (Some e')
            \<and> Error e' = ''could not walk '' @ path @ '': '' @ Error e)
       \<and> fst (snd r) = u
       \<and> \<not> list_ex is_Upload (snd (snd r))
       \<and> \<not> list_ex is_Open (snd (snd r))"
  using assms by (simp add: createUploadFunc_def)

theorem walk_error_is_returned_witness:
  "(\<exists>e'. fst case_walk_error = Returned (Some e')
         \<and> Error e' = ''could not walk '' @ ''foo.txt'' @ '': '' @ Error (errorString ''some error''))
   \<and> fst (snd case_walk_error) = no_client
   \<and> \<not> list_ex is_Upload (snd (snd case_walk_error))
   \<and> \<not> list_ex is_Open (snd (snd case_walk_error))"
  by (rule walk_error_is_returned [OF refl])
     (simp add: case_walk_error_def run_case_def)

text \<open>
  C2. For an entry whose metadata says directory, with no prior walk error, the callback
  returns \<^verbatim>\<open>nil\<close>, does not invoke the uploader (no \<open>Upload\<close> event, its state
  unchanged) and opens nothing.
\<close>

theorem directory_is_skipped:
  fixes r :: "outcome \<times> 'u \<times> 'f event list"
  assumes "IsDir d"
    and "r = createUploadFunc tbl fsys client path (Some d) None u"
  shows "fst r = Returned None
       \<and> fst (snd r) = u
       \<and> \<not> list_ex is_Upload (snd (snd r))
       \<and> \<not> list_ex is_Open (snd (snd r))"
  using assms by (simp add: createUploadFunc_def)

theorem directory_is_skipped_witness:
  "fst case_skip_directory = Returned None
   \<and> fst (snd case_skip_directory) = no_client
   \<and> \<not> list_ex is_Upload (snd (snd case_skip_directory))
   \<and> \<not> list_ex is_Open (snd (snd case_skip_directory))"
proof (rule directory_is_skipped
    [where fsys = "mockFS_Open Map.empty" and tbl = mime_types and client = mockUploader_Upload
     and d = "mockFileInfo_DirEntry
                \<lparr>name = ''foo/bar'', size = 12, mode = ModeDir, modTime = 0\<rparr>"])
  show "IsDir (mockFileInfo_DirEntry \<lparr>name = ''foo/bar'', size = 12, mode = ModeDir, modTime = 0\<rparr>)"
    by (simp add: mockFileInfo_DirEntry_def FileMode_IsDir_def ModeDir_def)
  show "case_skip_directory =
          createUploadFunc mime_types (mockFS_Open Map.empty) mockUploader_Upload ''foo/bar''
            (Some (mockFileInfo_DirEntry
               \<lparr>name = ''foo/bar'', size = 12, mode = ModeDir, modTime = 0\<rparr>)) None no_client"
    by (simp add: case_skip_directory_def run_case_def)
qed

text \<open>
  C4. For a non-directory entry whose file cannot be opened, the callback returns a
  non-nil error whose message holds the path and the message of the error of
  \<^verbatim>\<open>Open\<close>, and the uploader is not invoked.
\<close>

theorem open_error_is_returned:
  fixes r :: "outcome \<times> 'u \<times> 'f event list"
  assumes "\<not> IsDir d"
    and "snd (fsys path) = Some e"
    and "r = createUploadFunc tbl fsys client path (Some d) None u"
  shows "(\<exists>e'. fst r = Returned (Some e')
            \<and> Error e' = ''could not open '' @ path @ '' for reading: '' @ Error e)
       \<and> fst (snd r) = u
       \<and> \<not> list_ex is_Upload (snd (snd r))"
  using assms by (cases "fsys path") (simp add: createUploadFunc_def split: option.splits)

theorem open_error_is_returned_witness:
  "(\<exists>e'. fst case_error_opening_file = Returned (Some e')
         \<and> Error e' = ''could not open '' @ ''foo.txt'' @ '' for reading: ''
                         @ Error (errorString ''can't be opened''))
   \<and> fst (snd case_error_opening_file) = no_client
   \<and> \<not> list_ex is_Upload (snd (snd case_error_opening_file))"
proof (rule open_error_is_returned
    [where fsys = "mockFS_Open
       [''foo.txt'' \<mapsto> \<lparr>body = None, err = Some (errorString ''can't be opened'')\<rparr>]"
     and tbl = mime_types and client = mockUploader_Upload
     and d = "mockFileInfo_DirEntry \<lparr>name = ''foo.txt'', size = 12, mode = 0, modTime = 0\<rparr>"])
  show "\<not> IsDir (mockFileInfo_DirEntry \<lparr>name = ''foo.txt'', size = 12, mode = 0, modTime = 0\<rparr>)"
    by (simp add: mockFileInfo_DirEntry_def FileMode_IsDir_def)
  show "snd (mockFS_Open
               [''foo.txt'' \<mapsto> \<lparr>body = None, err = Some (errorString ''can't be opened'')\<rparr>]
               ''foo.txt'') = Some (errorString ''can't be opened'')"
    by (simp add: mockFS_Open_def)
  show "case_error_opening_file =
          createUploadFunc mime_types
            (mockFS_Open
               [''foo.txt'' \<mapsto> \<lparr>body = None, err = Some (errorString ''can't be opened'')\<rparr>])
            mockUploader_Upload ''foo.txt''
            (Some (mockFileInfo_DirEntry
               \<lparr>name = ''foo.txt'', size = 12, mode = 0, modTime = 0\<rparr>)) None no_client"
    by (simp add: case_error_opening_file_def run_case_def)
qed

text \<open>
  C5. For a non-directory entry whose file opens but whose \<^verbatim>\<open>Upload\<close> returns an
  error, the callback returns a non-nil error whose message holds the path and the
  message of the upload error.
\<close>

theorem upload_error_is_returned:
  fixes r :: "outcome \<times> 'u \<times> 'f event list"
  assumes "\<not> IsDir d"
    and "fsys path = (Some opened, None)"
    and "fst (client \<lparr>Path = path, Body = opened,
                       ContentType = TypeByExtension tbl (Ext path)\<rparr> u) = Some e"
    and "r = createUploadFunc tbl fsys client path (Some d) None u"
  shows "\<exists>e'. fst r = Returned (Some e')
           \<and> Error e' = ''failed to upload '' @ path @ '': '' @ Error e"
  using assms
  by (cases "client \<lparr>Path = path, Body = opened, ContentType = TypeByExtension tbl (Ext path)\<rparr> u")
     (simp add: createUploadFunc_def)

theorem upload_error_is_returned_witness:
  "\<exists>e'. fst case_upload_error = Returned (Some e')
        \<and> Error e' = ''failed to upload '' @ ''foo.txt'' @ '': ''
                        @ Error (errorString ''failed to upload'')"
proof (rule upload_error_is_returned
    [where fsys = "mockFS_Open [''foo.txt'' \<mapsto> \<lparr>body = Some ''some body'', err = None\<rparr>]"
     and tbl = mime_types and client = mockUploader_Upload
     and opened = "\<lparr>body = Some ''some body'', err = None\<rparr>"
     and u = "\<lparr>uploadErr = Some (errorString ''failed to upload''), uploadedObject = None\<rparr>"
     and d = "mockFileInfo_DirEntry \<lparr>name = ''foo.txt'', size = 12, mode = 0, modTime = 0\<rparr>"])
  show "\<not> IsDir (mockFileInfo_DirEntry \<lparr>name = ''foo.txt'', size = 12, mode = 0, modTime = 0\<rparr>)"
    by (simp add: mockFileInfo_DirEntry_def FileMode_IsDir_def)
  show "mockFS_Open [''foo.txt'' \<mapsto> \<lparr>body = Some ''some body'', err = None\<rparr>] ''foo.txt''
          = (Some \<lparr>body = Some ''some body'', err = None\<rparr>, None)"
    by (simp add: mockFS_Open_def)
  show "fst (mockUploader_Upload
               \<lparr>Path = ''foo.txt'', Body = \<lparr>body = Some ''some body'', err = None\<rparr>,
                  ContentType = TypeByExtension mime_types (Ext ''foo.txt'')\<rparr>
               \<lparr>uploadErr = Some (errorString ''failed to upload''), uploadedObject = None\<rparr>)
          = Some (errorString ''failed to upload'')"
    by (simp add: mockUploader_Upload_def)
  show "case_upload_error =
          createUploadFunc mime_types
            (mockFS_Open [''foo.txt'' \<mapsto> \<lparr>body = Some ''some body'', err = None\<rparr>])
            mockUploader_Upload ''foo.txt''
            (Some (mockFileInfo_DirEntry
               \<lparr>name = ''foo.txt'', size = 12, mode = 0, modTime = 0\<rparr>)) None
            \<lparr>uploadErr = Some (errorString ''failed to upload''), uploadedObject = None\<rparr>"
    by (simp add: case_upload_error_def run_case_def)
qed

text \<open>
  C1. For a non-directory entry whose file opens and whose upload succeeds, the callback
  invokes the uploader exactly once, with an object whose path is the path it was called
  with and whose content type is the table's entry for the path's extension (the empty
  string when the table has none), and returns \<^verbatim>\<open>nil\<close>.
\<close>

theorem file_is_uploaded:
  fixes r :: "outcome \<times> 'u \<times> 'f event list"
  assumes "\<not> IsDir d"
    and "fsys path = (Some opened, None)"
    and "fst (client \<lparr>Path = path, Body = opened,
                       ContentType = TypeByExtension tbl (Ext path)\<rparr> u) = None"
    and "r = createUploadFunc tbl fsys client path (Some d) None u"
  shows "(\<exists>object. filter is_Upload (snd (snd r)) = [Upload object]
            \<and> Path object = path
            \<and> ContentType object = (case tbl (Ext path) of None \<Rightarrow> [] | Some t \<Rightarrow> t)
            \<and> fst (snd r) = snd (client object u))
       \<and> fst r = Returned None"
  using assms
  by (cases "client \<lparr>Path = path, Body = opened, ContentType = TypeByExtension tbl (Ext path)\<rparr> u")
     (simp add: createUploadFunc_def TypeByExtension_def)

theorem file_is_uploaded_witness:
  "((\<exists>object. filter is_Upload (snd (snd case_successful_upload)) = [Upload object]
       \<and> Path object = ''foo.txt''
       \<and> ContentType object = ''text/plain; charset=utf-8'')
     \<and> fst case_successful_upload = Returned None)
   \<and> ((\<exists>object. filter is_Upload (snd (snd case_successful_javascript_upload)) = [Upload object]
       \<and> Path object = ''app/index.js''
       \<and> ContentType object = ''application/javascript'')
     \<and> fst case_successful_javascript_upload = Returned None)
   \<and> ((\<exists>object. filter is_Upload (snd (snd case_no_extension)) = [Upload object]
       \<and> Path object = ''v1.2/LICENSE''
       \<and> ContentType object = [])
     \<and> fst case_no_extension = Returned None)"
proof -
  let ?entry = "\<lambda>n. mockFileInfo_DirEntry \<lparr>name = n, size = 12, mode = 0, modTime = 0\<rparr>"
  let ?plain = "\<lparr>body = Some ''some body'', err = None\<rparr>"
  let ?js = "\<lparr>body = Some ''let foo = 'bar';'', err = None\<rparr>"
  have text_case:
    "(\<exists>object. filter is_Upload (snd (snd case_successful_upload)) = [Upload object]
        \<and> Path object = ''foo.txt''
        \<and> ContentType object = (case mime_types (Ext ''foo.txt'') of None \<Rightarrow> [] | Some t \<Rightarrow> t)
        \<and> fst (snd case_successful_upload) = snd (mockUploader_Upload object no_client))
     \<and> fst case_successful_upload = Returned None"
    by (rule file_is_uploaded
          [where fsys = "mockFS_Open [''foo.txt'' \<mapsto> ?plain]" and opened = ?plain
           and d = "?entry ''foo.txt''" and tbl = mime_types])
       (simp add: mockFileInfo_DirEntry_def FileMode_IsDir_def,
        simp add: mockFS_Open_def,
        simp add: mockUploader_Upload_def no_client_def,
        simp add: case_successful_upload_def run_case_def)
  have js_case:
    "(\<exists>object. filter is_Upload (snd (snd case_successful_javascript_upload)) = [Upload object]
        \<and> Path object = ''app/index.js''
        \<and> ContentType object
            = (case mime_types (Ext ''app/index.js'') of None \<Rightarrow> [] | Some t \<Rightarrow> t)
        \<and> fst (snd case_successful_javascript_upload)
            = snd (mockUploader_Upload object no_client))
     \<and> fst case_successful_javascript_upload = Returned None"
    by (rule file_is_uploaded
          [where fsys = "mockFS_Open [''app/index.js'' \<mapsto> ?js]" and opened = ?js
           and d = "?entry ''app/index.js''" and tbl = mime_types])
       (simp add: mockFileInfo_DirEntry_def FileMode_IsDir_def,
        simp add: mockFS_Open_def,
        simp add: mockUploader_Upload_def no_client_def,
        simp add: case_successful_javascript_upload_def run_case_def)
  have bare_case:
    "(\<exists>object. filter is_Upload (snd (snd case_no_extension)) = [Upload object]
        \<and> Path object = ''v1.2/LICENSE''
        \<and> ContentType object
            = (case mime_types (Ext ''v1.2/LICENSE'') of None \<Rightarrow> [] | Some t \<Rightarrow> t)
        \<and> fst (snd case_no_extension) = snd (mockUploader_Upload object no_client))
     \<and> fst case_no_extension = Returned None"
    by (rule file_is_uploaded
          [where fsys = "mockFS_Open [''v1.2/LICENSE'' \<mapsto> ?plain]" and opened = ?plain
           and d = "?entry ''v1.2/LICENSE''" and tbl = mime_types])
       (simp add: mockFileInfo_DirEntry_def FileMode_IsDir_def,
        simp add: mockFS_Open_def,
        simp add: mockUploader_Upload_def no_client_def,
        simp add: case_no_extension_def run_case_def)
  have "mime_types (Ext ''foo.txt'') = Some ''text/plain; charset=utf-8''"
    and "mime_types (Ext ''app/index.js'') = Some ''application/javascript''"
    and "mime_types (Ext ''v1.2/LICENSE'') = None"
    by (simp_all add: mime_types_def Ext_def)
  with text_case js_case bare_case show ?thesis by auto
qed

text \<open>
  C6. For a file whose content is the bytes "some body", the body the uploader receives
  is the file as \<^verbatim>\<open>Open\<close> returned it, and reading it to the end yields "some body".
  The uploader receives it exactly once, and the only event before that is the opening
  of the file.
\<close>

theorem body_reaches_uploader_intact:
  fixes r :: "outcome \<times> 'u \<times> mockFile event list"
  assumes "\<not> IsDir d"
    and "fsys path = (Some f, None)"
    and "ReadAll f = Some ''some body''"
    and "r = createUploadFunc tbl fsys client path (Some d) None u"
  shows "\<exists>object. filter is_Upload (snd (snd r)) = [Upload object]
           \<and> Body object = f
           \<and> ReadAll (Body object) = Some ''some body''
           \<and> takeWhile (\<lambda>ev. \<not> is_Upload ev) (snd (snd r)) = [Open path]"
  using assms
  by (cases "client \<lparr>Path = path, Body = f, ContentType = TypeByExtension tbl (Ext path)\<rparr> u")
     (auto simp add: createUploadFunc_def Let_def split: option.splits)

theorem body_reaches_uploader_intact_witness:
  "(\<exists>object. filter is_Upload (snd (snd case_successful_upload)) = [Upload object]
       \<and> Body object = \<lparr>body = Some ''some body'', err = None\<rparr>
       \<and> ReadAll (Body object) = Some ''some body''
       \<and> takeWhile (\<lambda>ev. \<not> is_Upload ev) (snd (snd case_successful_upload)) = [Open ''foo.txt''])
   \<and> map_option (\<lambda>object. ReadAll (Body object)) (uploadedObject (fst (snd case_successful_upload)))
       = Some (Some ''some body'')"
proof
  show "\<exists>object. filter is_Upload (snd (snd case_successful_upload)) = [Upload object]
       \<and> Body object = \<lparr>body = Some ''some body'', err = None\<rparr>
       \<and> ReadAll (Body object) = Some ''some body''
       \<and> takeWhile (\<lambda>ev. \<not> is_Upload ev) (snd (snd case_successful_upload)) = [Open ''foo.txt'']"
    by (rule body_reaches_uploader_intact
          [where fsys = "mockFS_Open [''foo.txt'' \<mapsto> \<lparr>body = Some ''some body'', err = None\<rparr>]"
           and d = "mockFileInfo_DirEntry \<lparr>name = ''foo.txt'', size = 12, mode = 0, modTime = 0\<rparr>"
           and tbl = mime_types and client = mockUploader_Upload and u = no_client])
       (simp add: mockFileInfo_DirEntry_def FileMode_IsDir_def,
        simp add: mockFS_Open_def,
        simp add: ReadAll_def,
        simp add: case_successful_upload_def run_case_def)
  show "map_option (\<lambda>object. ReadAll (Body object))
          (uploadedObject (fst (snd case_successful_upload))) = Some (Some ''some body'')"
    by (simp add: case_successful_upload_def run_case_def createUploadFunc_def mockFS_Open_def
          mockUploader_Upload_def no_client_def mockFileInfo_DirEntry_def FileMode_IsDir_def
          ReadAll_def Let_def)
qed

text \<open>
  C7. Whenever \<^verbatim>\<open>Open\<close> has returned a file and no error, the callback returns
  (it does not panic), whatever the uploader answers, and its events end with the closing
  of that file: the file is opened once, closed once, and nothing happens after the close.
\<close>

theorem opened_file_is_closed:
  fixes r :: "outcome \<times> 'u \<times> 'f event list"
  assumes "\<not> IsDir d"
    and "fsys path = (Some opened, None)"
    and "r = createUploadFunc tbl fsys client path (Some d) None u"
  shows "(\<exists>e. fst r = Returned e)
       \<and> filter is_Open (snd (snd r)) = [Open path]
       \<and> filter is_Close (snd (snd r)) = [Close opened]
       \<and> last (snd (snd r)) = Close opened"
  using assms
  by (cases "client \<lparr>Path = path, Body = opened, ContentType = TypeByExtension tbl (Ext path)\<rparr> u")
     (auto simp add: createUploadFunc_def Let_def split: option.splits)

theorem opened_file_is_closed_witness:
  "((\<exists>e. fst case_upload_error = Returned e)
     \<and> filter is_Open (snd (snd case_upload_error)) = [Open ''foo.txt'']
     \<and> filter is_Close (snd (snd case_upload_error))
         = [Close \<lparr>body = Some ''some body'', err = None\<rparr>]
     \<and> last (snd (snd case_upload_error)) = Close \<lparr>body = Some ''some body'', err = None\<rparr>)
   \<and> ((\<exists>e. fst case_successful_upload = Returned e)
     \<and> filter is_Open (snd (snd case_successful_upload)) = [Open ''foo.txt'']
     \<and> filter is_Close (snd (snd case_successful_upload))
         = [Close \<lparr>body = Some ''some body'', err = None\<rparr>]
     \<and> last (snd (snd case_successful_upload))
         = Close \<lparr>body = Some ''some body'', err = None\<rparr>)"
proof
  let ?fsys = "mockFS_Open [''foo.txt'' \<mapsto> \<lparr>body = Some ''some body'', err = None\<rparr>]"
  let ?d = "mockFileInfo_DirEntry \<lparr>name = ''foo.txt'', size = 12, mode = 0, modTime = 0\<rparr>"
  show "(\<exists>e. fst case_upload_error = Returned e)
     \<and> filter is_Open (snd (snd case_upload_error)) = [Open ''foo.txt'']
     \<and> filter is_Close (snd (snd case_upload_error))
         = [Close \<lparr>body = Some ''some body'', err = None\<rparr>]
     \<and> last (snd (snd case_upload_error)) = Close \<lparr>body = Some ''some body'', err = None\<rparr>"
    by (rule opened_file_is_closed
          [where fsys = ?fsys and d = ?d and tbl = mime_types and client = mockUploader_Upload
           and u = "\<lparr>uploadErr = Some (errorString ''failed to upload''),
                      uploadedObject = None\<rparr>"])
       (simp add: mockFileInfo_DirEntry_def FileMode_IsDir_def,
        simp add: mockFS_Open_def,
        simp add: case_upload_error_def run_case_def)
  show "(\<exists>e. fst case_successful_upload = Returned e)
     \<and> filter is_Open (snd (snd case_successful_upload)) = [Open ''foo.txt'']
     \<and> filter is_Close (snd (snd case_successful_upload))
         = [Close \<lparr>body = Some ''some body'', err = None\<rparr>]
     \<and> last (snd (snd case_successful_upload))
         = Close \<lparr>body = Some ''some body'', err = None\<rparr>"
    by (rule opened_file_is_closed
          [where fsys = ?fsys and d = ?d and tbl = mime_types and client = mockUploader_Upload
           and u = no_client])
       (simp add: mockFileInfo_DirEntry_def FileMode_IsDir_def,
        simp add: mockFS_Open_def,
        simp add: case_successful_upload_def run_case_def)
qed

text \<open>
  C10. The prior-error check comes before the directory check: with a prior walk error
  the callback returns the wrapped error, whose message is \<^verbatim>\<open>could not walk\<close>, the
  path and the prior error's message, and this result does not depend on the entry at
  all. It is the same for a directory entry, a file entry and a \<^verbatim>\<open>nil\<close> entry: never
  a panic and never the \<^verbatim>\<open>nil\<close> of a skipped directory; the uploader's state is
  unchanged and nothing is logged, opened or uploaded.
\<close>

theorem walk_error_precedes_directory_check:
  fixes r :: "outcome \<times> 'u \<times> 'f event list"
  assumes "walkErr = Some e"
    and "r = createUploadFunc tbl fsys client path entry walkErr u"
  shows "fst r = Returned (Some (errorString (''could not walk '' @ path @ '': '' @ Error e)))
       \<and> r = createUploadFunc tbl fsys client path None walkErr u
       \<and> fst r \<noteq> Panicked
       \<and> fst r \<noteq> Returned None
       \<and> fst (snd r) = u
       \<and> snd (snd r) = []"
  using assms by (simp add: createUploadFunc_def)

theorem walk_error_precedes_directory_check_witness:
  "fst (run_case Map.empty no_client ''foo/bar''
       (Some \<lparr>name = ''foo/bar'', size = 12, mode = ModeDir, modTime = 0\<rparr>)
       (Some (errorString ''some error'')))
     = Returned (Some (errorString
         (''could not walk '' @ ''foo/bar'' @ '': '' @ Error (errorString ''some error''))))
   \<and> run_case Map.empty no_client ''foo/bar''
       (Some \<lparr>name = ''foo/bar'', size = 12, mode = ModeDir, modTime = 0\<rparr>)
       (Some (errorString ''some error''))
     = createUploadFunc mime_types (mockFS_Open Map.empty) mockUploader_Upload ''foo/bar'' None
         (Some (errorString ''some error'')) no_client
   \<and> fst (run_case Map.empty no_client ''foo/bar''
       (Some \<lparr>name = ''foo/bar'', size = 12, mode = ModeDir, modTime = 0\<rparr>)
       (Some (errorString ''some error''))) \<noteq> Panicked
   \<and> fst (run_case Map.empty no_client ''foo/bar''
       (Some \<lparr>name = ''foo/bar'', size = 12, mode = ModeDir, modTime = 0\<rparr>)
       (Some (errorString ''some error''))) \<noteq> Returned None
   \<and> fst (snd (run_case Map.empty no_client ''foo/bar''
       (Some \<lparr>name = ''foo/bar'', size = 12, mode = ModeDir, modTime = 0\<rparr>)
       (Some (errorString ''some error'')))) = no_client
   \<and> snd (snd (run_case Map.empty no_client ''foo/bar''
       (Some \<lparr>name = ''foo/bar'', size = 12, mode = ModeDir, modTime = 0\<rparr>)
       (Some (errorString ''some error'')))) = []"
  by (rule walk_error_precedes_directory_check
        [where e = "errorString ''some error''" and tbl = mime_types
         and fsys = "mockFS_Open Map.empty" and client = mockUploader_Upload
         and entry = "Some (mockFileInfo_DirEntry
                        \<lparr>name = ''foo/bar'', size = 12, mode = ModeDir, modTime = 0\<rparr>)"])
     (simp, simp add: run_case_def)

section \<open>Properties of the S3 uploader and of the program\<close>

text \<open>
  C8. \<^verbatim>\<open>s3Uploader.Upload\<close> runs the store operation once, on the input made of the
  instance's bucket, the object's path as key, the instance's ACL, the object's body and
  content type, and the instance's tags as metadata: the store is left as that operation
  leaves it. It returns an error exactly when the operation does, and that error is always
  a plain message error (the fixed prefix and the cause's message), whatever the type of
  the cause. The uploader the program builds has the ACL \<^verbatim>\<open>public-read\<close>, the bucket of
  the flag and the given base client.
\<close>

theorem s3_upload_passes_configuration:
  fixes s :: "('f, 's) s3Uploader" and b :: "('f, 's) s3manager_Uploader"
  assumes "input = \<lparr>Bucket = Some (bucket s), Key = Some (Path object),
                      ACL = Some (fileACL s), InputBody = Body object,
                      InputContentType = Some (ContentType object), Metadata = Tags s\<rparr>"
    and "r = base s input st"
  shows "snd (s3Uploader_Upload s object st) = snd r
       \<and> (fst (s3Uploader_Upload s object st) \<noteq> None \<longleftrightarrow> fst r \<noteq> None)
       \<and> (\<forall>e. fst r = Some e \<longrightarrow>
             fst (s3Uploader_Upload s object st)
               = Some (errorString (''failed to upload to S3: '' @ Error e)))
       \<and> fileACL (main_s3Uploader fl b) = ''public-read''
       \<and> bucket (main_s3Uploader fl b) = bucketFlag fl
       \<and> base (main_s3Uploader fl b) = b"
proof -
  obtain e st' where run: "base s input st = (e, st')"
    by (cases "base s input st")
  have "s3Uploader_Upload s object st
      = (case e of None \<Rightarrow> None
         | Some c \<Rightarrow> Some (errorString (''failed to upload to S3: '' @ Error c)), st')"
    using run assms(1) by (cases e) (simp_all add: s3Uploader_Upload_def)
  moreover have "r = (e, st')"
    using run assms(2) by simp
  moreover have "fileACL (main_s3Uploader fl b) = ''public-read''
      \<and> bucket (main_s3Uploader fl b) = bucketFlag fl \<and> base (main_s3Uploader fl b) = b"
    by (simp add: main_s3Uploader_def newS3Uploader_def Let_def)
  ultimately show ?thesis
    by (cases e) simp_all
qed

theorem s3_upload_passes_configuration_witness:
  "s3Uploader_Upload (main_s3Uploader example_flags (recording_store [''bad.txt'']))
       \<lparr>Path = ''foo.txt'', Body = \<lparr>body = Some ''some body'', err = None\<rparr>,
        ContentType = ''text/plain; charset=utf-8''\<rparr> []
     = (None,
        [\<lparr>Bucket = Some ''my-space'', Key = Some ''foo.txt'', ACL = Some ''public-read'',
          InputBody = \<lparr>body = Some ''some body'', err = None\<rparr>,
          InputContentType = Some ''text/plain; charset=utf-8'',
          Metadata = [''x-amz-meta-app-version'' \<mapsto> Some ''1.2.3'']\<rparr>])
   \<and> fst (s3Uploader_Upload (main_s3Uploader example_flags (recording_store [''bad.txt'']))
          \<lparr>Path = ''bad.txt'', Body = \<lparr>body = Some ''some body'', err = None\<rparr>,
           ContentType = ''text/plain; charset=utf-8''\<rparr> [])
     = Some (errorString ''failed to upload to S3: RequestError: send request failed'')"
proof -
  let ?s = "main_s3Uploader example_flags
              (recording_store [''bad.txt''] :: (mockFile, mockFile UploadInput list) s3manager_Uploader)"
  let ?object = "\<lambda>p. \<lparr>Path = p, Body = \<lparr>body = Some ''some body'', err = None\<rparr>,
                        ContentType = ''text/plain; charset=utf-8''\<rparr>"
  let ?input = "\<lambda>p. \<lparr>Bucket = Some ''my-space'', Key = Some p, ACL = Some ''public-read'',
          InputBody = \<lparr>body = Some ''some body'', err = None\<rparr>,
          InputContentType = Some ''text/plain; charset=utf-8'',
          Metadata = [''x-amz-meta-app-version'' \<mapsto> Some ''1.2.3'']\<rparr>"
  have conf: "?input p = \<lparr>Bucket = Some (bucket ?s), Key = Some (Path (?object p)),
                      ACL = Some (fileACL ?s), InputBody = Body (?object p),
                      InputContentType = Some (ContentType (?object p)), Metadata = Tags ?s\<rparr>"
    for p
    by (simp add: main_s3Uploader_def newS3Uploader_def example_flags_def)
  have store: "base ?s (?input p) [] = recording_store [''bad.txt''] (?input p) []" for p
    by (simp add: main_s3Uploader_def newS3Uploader_def example_flags_def)
  have good: "recording_store [''bad.txt''] (?input ''foo.txt'') [] = (None, [?input ''foo.txt''])"
    by (simp add: recording_store_def)
  have bad: "fst (recording_store [''bad.txt''] (?input ''bad.txt'') [])
      = Some (foreignError ''awserr.Error'' ''RequestError: send request failed'')"
    by (simp add: recording_store_def)
  note ok = s3_upload_passes_configuration [where st = "[]" and fl = example_flags
      and b = "recording_store [''bad.txt'']", OF _ refl]
  from ok [OF conf [of "''foo.txt''"]] good store [of "''foo.txt''"]
  have "s3Uploader_Upload ?s (?object ''foo.txt'') [] = (None, [?input ''foo.txt''])"
    by (simp add: prod_eq_iff)
  moreover from ok [OF conf [of "''bad.txt''"]] bad store [of "''bad.txt''"]
  have "fst (s3Uploader_Upload ?s (?object ''bad.txt'') [])
      = Some (errorString ''failed to upload to S3: RequestError: send request failed'')"
    by simp
  ultimately show ?thesis by simp
qed

text \<open>
  C9. When \<^verbatim>\<open>AWS_ACCESS_KEY_ID\<close> or \<^verbatim>\<open>AWS_SECRET_ACCESS_KEY\<close> is unset or empty, the
  program exits with status 1 after logging one message; nothing is walked, nothing is
  opened, nothing is uploaded and the store is untouched, whatever the working directory
  holds.
\<close>

theorem missing_credentials_are_fatal:
  fixes r :: "exit \<times> 's \<times> 'f event list"
  assumes "Getenv env ''AWS_ACCESS_KEY_ID'' = [] \<or> Getenv env ''AWS_SECRET_ACCESS_KEY'' = []"
    and "r = main env fl NewSession NewUploader tbl dirFS visits st"
  shows "fst r = Exit 1
       \<and> fst (snd r) = st
       \<and> (\<exists>msg. snd (snd r) = [Log msg])
       \<and> \<not> list_ex is_Open (snd (snd r))
       \<and> \<not> list_ex is_Upload (snd (snd r))"
  using assms by (auto simp add: main_def Let_def)

theorem missing_credentials_are_fatal_witness:
  "(fst (example_run [''AWS_ACCESS_KEY_ID'' \<mapsto> ''AKIA'']) = Exit 1
     \<and> fst (snd (example_run [''AWS_ACCESS_KEY_ID'' \<mapsto> ''AKIA''])) = []
     \<and> (\<exists>msg. snd (snd (example_run [''AWS_ACCESS_KEY_ID'' \<mapsto> ''AKIA''])) = [Log msg])
     \<and> \<not> list_ex is_Open (snd (snd (example_run [''AWS_ACCESS_KEY_ID'' \<mapsto> ''AKIA''])))
     \<and> \<not> list_ex is_Upload (snd (snd (example_run [''AWS_ACCESS_KEY_ID'' \<mapsto> ''AKIA'']))))
   \<and> (fst (example_run [''AWS_ACCESS_KEY_ID'' \<mapsto> [], ''AWS_SECRET_ACCESS_KEY'' \<mapsto> ''s3cr3t''])
         = Exit 1
     \<and> fst (snd (example_run
         [''AWS_ACCESS_KEY_ID'' \<mapsto> [], ''AWS_SECRET_ACCESS_KEY'' \<mapsto> ''s3cr3t''])) = []
     \<and> (\<exists>msg. snd (snd (example_run
         [''AWS_ACCESS_KEY_ID'' \<mapsto> [], ''AWS_SECRET_ACCESS_KEY'' \<mapsto> ''s3cr3t''])) = [Log msg])
     \<and> \<not> list_ex is_Open (snd (snd (example_run
         [''AWS_ACCESS_KEY_ID'' \<mapsto> [], ''AWS_SECRET_ACCESS_KEY'' \<mapsto> ''s3cr3t''])))
     \<and> \<not> list_ex is_Upload (snd (snd (example_run
         [''AWS_ACCESS_KEY_ID'' \<mapsto> [], ''AWS_SECRET_ACCESS_KEY'' \<mapsto> ''s3cr3t'']))))"
proof
  have "Getenv [''AWS_ACCESS_KEY_ID'' \<mapsto> ''AKIA''] ''AWS_ACCESS_KEY_ID'' = []
      \<or> Getenv [''AWS_ACCESS_KEY_ID'' \<mapsto> ''AKIA''] ''AWS_SECRET_ACCESS_KEY'' = []"
    by (simp add: Getenv_def)
  then show "fst (example_run [''AWS_ACCESS_KEY_ID'' \<mapsto> ''AKIA'']) = Exit 1
     \<and> fst (snd (example_run [''AWS_ACCESS_KEY_ID'' \<mapsto> ''AKIA''])) = []
     \<and> (\<exists>msg. snd (snd (example_run [''AWS_ACCESS_KEY_ID'' \<mapsto> ''AKIA''])) = [Log msg])
     \<and> \<not> list_ex is_Open (snd (snd (example_run [''AWS_ACCESS_KEY_ID'' \<mapsto> ''AKIA''])))
     \<and> \<not> list_ex is_Upload (snd (snd (example_run [''AWS_ACCESS_KEY_ID'' \<mapsto> ''AKIA''])))"
    by (rule missing_credentials_are_fatal) (simp add: example_run_def)
  let ?env = "[''AWS_ACCESS_KEY_ID'' \<mapsto> [], ''AWS_SECRET_ACCESS_KEY'' \<mapsto> ''s3cr3t'']"
  have "Getenv ?env ''AWS_ACCESS_KEY_ID'' = [] \<or> Getenv ?env ''AWS_SECRET_ACCESS_KEY'' = []"
    by (simp add: Getenv_def)
  then show "fst (example_run ?env) = Exit 1
     \<and> fst (snd (example_run ?env)) = []
     \<and> (\<exists>msg. snd (snd (example_run ?env)) = [Log msg])
     \<and> \<not> list_ex is_Open (snd (snd (example_run ?env)))
     \<and> \<not> list_ex is_Upload (snd (snd (example_run ?env)))"
    by (rule missing_credentials_are_fatal) (simp add: example_run_def)
qed

text \<open>
  With both credentials set, the same run walks the tree: it exits with status 0 and the
  store has received the two files, each under its path and with the ACL
  \<^verbatim>\<open>public-read\<close>.
\<close>

lemma example_run_with_credentials:
  "fst (example_run [''AWS_ACCESS_KEY_ID'' \<mapsto> ''AKIA'', ''AWS_SECRET_ACCESS_KEY'' \<mapsto> ''s3cr3t''])
     = Exit 0
   \<and> map Key (fst (snd (example_run
         [''AWS_ACCESS_KEY_ID'' \<mapsto> ''AKIA'', ''AWS_SECRET_ACCESS_KEY'' \<mapsto> ''s3cr3t''])))
     = [Some ''app/index.js'', Some ''foo.txt'']
   \<and> map ACL (fst (snd (example_run
         [''AWS_ACCESS_KEY_ID'' \<mapsto> ''AKIA'', ''AWS_SECRET_ACCESS_KEY'' \<mapsto> ''s3cr3t''])))
     = [Some ''public-read'', Some ''public-read'']
   \<and> map InputContentType (fst (snd (example_run
         [''AWS_ACCESS_KEY_ID'' \<mapsto> ''AKIA'', ''AWS_SECRET_ACCESS_KEY'' \<mapsto> ''s3cr3t''])))
     = [Some ''application/javascript'', Some ''text/plain; charset=utf-8'']"
  by (simp add: example_run_def main_def Getenv_def example_flags_def example_visits_def
      example_files_def createUploadFunc_def mockFS_Open_def s3Uploader_Upload_def
      main_s3Uploader_def newS3Uploader_def recording_store_def Let_def
      TypeByExtension_def Ext_def mime_types_def)

end
